theory Spec2Isabelle
  imports Main
begin

section \<open>Discovery helpers of \<^verbatim>\<open>homeassistant/helpers/discovery.py\<close>\<close>

text \<open>
  The module has two producers (\<^verbatim>\<open>async_discover\<close>, \<^verbatim>\<open>async_load_platform\<close>) and two
  consumers (\<^verbatim>\<open>async_listen\<close>, \<^verbatim>\<open>async_listen_platform\<close>) on one shared event topic.
  The embedding passes the host object \<^verbatim>\<open>hass\<close> explicitly, returns raised exceptions as
  values, and represents the two listener closures by a datatype that stores what each
  closure captures. The blocking entry points (\<^verbatim>\<open>listen\<close>, \<^verbatim>\<open>discover\<close>,
  \<^verbatim>\<open>listen_platform\<close>, \<^verbatim>\<open>load_platform\<close>) only hand these same functions to the event loop
  and are not modelled separately.
\<close>

subsection \<open>Python values\<close>

text \<open>
  Event data is a \<^verbatim>\<open>Dict[str, Any]\<close>. The values that occur are strings, \<^verbatim>\<open>None\<close> and
  arbitrary payloads; a payload dictionary is kept as an association list. Values are only
  ever compared with strings by the code, so HOL equality on \<open>val\<close> agrees with Python's
  \<^verbatim>\<open>==\<close> wherever the model uses it.
\<close>

datatype val =
    VNone
  | VBool bool
  | VInt int
  | VStr string
  | VList "val list"
  | VDict "(string \<times> val) list"

text \<open>Python truthiness, as used by \<^verbatim>\<open>assert hass_config\<close> and \<^verbatim>\<open>if not platform\<close>.\<close>

fun truthy :: "val \<Rightarrow> bool" where
  "truthy VNone = False"
| "truthy (VBool b) = b"
| "truthy (VInt i) = (i \<noteq> 0)"
| "truthy (VStr s) = (s \<noteq> [])"
| "truthy (VList xs) = (xs \<noteq> [])"
| "truthy (VDict kvs) = (kvs \<noteq> [])"

datatype error =
    HomeAssistantError string
  | AssertionError string
  | KeyError string

type_synonym dict = "string \<rightharpoonup> val"

text \<open>\<^verbatim>\<open>k in d\<close>, \<^verbatim>\<open>d[k]\<close> (raises \<^verbatim>\<open>KeyError\<close> on a missing key) and \<^verbatim>\<open>d.get(k)\<close>.\<close>

definition dict_contains :: "dict \<Rightarrow> string \<Rightarrow> bool" where
  "dict_contains d k = (d k \<noteq> None)"

definition dict_getitem :: "dict \<Rightarrow> string \<Rightarrow> error + val" where
  "dict_getitem d k = (case d k of None \<Rightarrow> Inl (KeyError k) | Some v \<Rightarrow> Inr v)"

definition dict_get :: "dict \<Rightarrow> string \<Rightarrow> val" where
  "dict_get d k = (case d k of None \<Rightarrow> VNone | Some v \<Rightarrow> v)"

subsection \<open>Constants\<close>

definition EVENT_LOAD_PLATFORM :: "string \<Rightarrow> string" where
  \<comment> \<open>\<^verbatim>\<open>EVENT_LOAD_PLATFORM = "load_platform.{}"\<close>, applied with \<^verbatim>\<open>.format(component)\<close>\<close>
  "EVENT_LOAD_PLATFORM component = ''load_platform.'' @ component"

definition ATTR_PLATFORM :: string where
  "ATTR_PLATFORM = ''platform''"

text \<open>
  Modelled from the spec: \<^verbatim>\<open>ATTR_SERVICE\<close> and \<^verbatim>\<open>ATTR_DISCOVERED\<close> are imported from
  \<^verbatim>\<open>homeassistant.const\<close>, a module outside \<^verbatim>\<open>src/\<close>. The specification gives
  the wire shape of an event as \<^verbatim>\<open>{ service: string, discovered?: any, platform?: string }\<close>.
\<close>

definition ATTR_SERVICE :: string where
  "ATTR_SERVICE = ''service''"

definition ATTR_DISCOVERED :: string where
  "ATTR_DISCOVERED = ''discovered''"

subsection \<open>The host object and its collaborators\<close>

type_synonym callback = string

text \<open>
  The two closures installed on the bus. \<open>Discovery_event_listener service callback\<close> is the
  inner function of \<^verbatim>\<open>async_listen\<close> with the captured tuple \<^verbatim>\<open>service\<close> and the captured
  \<^verbatim>\<open>callback\<close>; \<open>Discovery_platform_listener service callback\<close> is the inner function of
  \<^verbatim>\<open>async_listen_platform\<close> with the captured string \<^verbatim>\<open>service\<close>.
\<close>

datatype listener =
    Discovery_event_listener "string list" callback
  | Discovery_platform_listener string callback

text \<open>A scheduled invocation \<^verbatim>\<open>target(arg1, arg2)\<close> of a consumer callback.\<close>

datatype job = Job (target: callback) (arg1: val) (arg2: val)

text \<open>The calls this module makes to the activation subsystem and to the bus, in order.\<close>

datatype call =
    is_Setup: Setup_component string val
  | is_Fire: Fire string dict

record event =
  event_type :: string
  data :: dict

record hass =
  components :: "string set"  \<comment> \<open>\<^verbatim>\<open>hass.config.components\<close>\<close>
  listeners :: "(string \<times> listener) list"  \<comment> \<open>bus registry: topic and handler, in registration order\<close>
  jobs :: "job list"  \<comment> \<open>callback invocations handed to the scheduler, in order\<close>
  calls :: "call list"  \<comment> \<open>activation and broadcast calls made so far, in order\<close>

text \<open>
  What the module imports from modules outside \<^verbatim>\<open>src/\<close>: the deny-list
  \<^verbatim>\<open>DEPENDENCY_BLACKLIST\<close> of \<^verbatim>\<open>homeassistant.loader\<close>, the topic name
  \<^verbatim>\<open>EVENT_PLATFORM_DISCOVERED\<close> of \<^verbatim>\<open>homeassistant.const\<close>, and the answer of the
  activation subsystem for a component and a configuration. They are parameters.
\<close>

record env =
  DEPENDENCY_BLACKLIST :: "string set"
  EVENT_PLATFORM_DISCOVERED :: string
  activation :: "string \<Rightarrow> val \<Rightarrow> bool"

text \<open>
  Modelled from the spec: \<^verbatim>\<open>setup.async_setup_component\<close> lives outside \<^verbatim>\<open>src/\<close>.
  The specification describes the activation collaborator as
  \<^verbatim>\<open>activate(name, config) -> bool\<close>, idempotent, returning success or failure, with
  \<^verbatim>\<open>is_active(name)\<close> true afterwards exactly on success. Every call is recorded.
\<close>

definition async_setup_component :: "env \<Rightarrow> hass \<Rightarrow> string \<Rightarrow> val \<Rightarrow> bool \<times> hass" where
  "async_setup_component env h domain config =
     (let h1 = h\<lparr>calls := calls h @ [Setup_component domain config]\<rparr> in
      if domain \<in> components h1 then (True, h1)
      else if activation env domain config
        then (True, h1\<lparr>components := insert domain (components h1)\<rparr>)
        else (False, h1))"

text \<open>
  Modelled from the spec: the scheduler entry points \<^verbatim>\<open>hass.async_add_job\<close> and
  \<^verbatim>\<open>hass.async_run_job\<close> live outside \<^verbatim>\<open>src/\<close>. The specification says that
  dispatch to a consumer callback is scheduled as an independent unit of work; both record
  the invocation of the callback with its two arguments.
\<close>

definition async_add_job :: "hass \<Rightarrow> callback \<Rightarrow> val \<Rightarrow> val \<Rightarrow> hass" where
  "async_add_job h cb a b = h\<lparr>jobs := jobs h @ [Job cb a b]\<rparr>"

definition async_run_job :: "hass \<Rightarrow> callback \<Rightarrow> val \<Rightarrow> val \<Rightarrow> hass" where
  "async_run_job h cb a b = h\<lparr>jobs := jobs h @ [Job cb a b]\<rparr>"

subsection \<open>The listener closures\<close>

definition discovery_event_listener ::
    "string list \<Rightarrow> callback \<Rightarrow> event \<Rightarrow> hass \<Rightarrow> error + hass" where
  "discovery_event_listener service callback ev h =
     (if dict_contains (data ev) ATTR_SERVICE then
        (case dict_getitem (data ev) ATTR_SERVICE of
           Inl e \<Rightarrow> Inl e
         | Inr s \<Rightarrow>
             if s \<in> VStr ` set service
             then (case dict_getitem (data ev) ATTR_SERVICE of
                     Inl e \<Rightarrow> Inl e
                   | Inr s' \<Rightarrow>
                       Inr (async_add_job h callback s' (dict_get (data ev) ATTR_DISCOVERED)))
             else Inr h)
      else Inr h)"

definition discovery_platform_listener ::
    "string \<Rightarrow> callback \<Rightarrow> event \<Rightarrow> hass \<Rightarrow> error + hass" where
  "discovery_platform_listener service callback ev h =
     (if dict_get (data ev) ATTR_SERVICE \<noteq> VStr service then Inr h
      else
        let platform = dict_get (data ev) ATTR_PLATFORM in
        if \<not> truthy platform then Inr h
        else Inr (async_run_job h callback platform (dict_get (data ev) ATTR_DISCOVERED)))"

fun run_listener :: "listener \<Rightarrow> event \<Rightarrow> hass \<Rightarrow> error + hass" where
  "run_listener (Discovery_event_listener service callback) ev h =
     discovery_event_listener service callback ev h"
| "run_listener (Discovery_platform_listener service callback) ev h =
     discovery_platform_listener service callback ev h"

subsection \<open>The bus\<close>

text \<open>
  Modelled from the spec: \<^verbatim>\<open>hass.bus.async_listen\<close> and \<^verbatim>\<open>hass.bus.async_fire\<close> live
  outside \<^verbatim>\<open>src/\<close>. The specification describes the broadcast channel as
  \<^verbatim>\<open>listen(topic, handler)\<close> and \<^verbatim>\<open>fire(topic, payload)\<close> with same-process delivery to
  the handlers registered on the topic at the time of the call. A handler that raises does
  not stop the delivery to the others and does not reach the producer.
\<close>

definition bus_async_listen :: "hass \<Rightarrow> string \<Rightarrow> listener \<Rightarrow> hass" where
  "bus_async_listen h topic l = h\<lparr>listeners := listeners h @ [(topic, l)]\<rparr>"

definition deliver :: "event \<Rightarrow> listener \<Rightarrow> hass \<Rightarrow> hass" where
  "deliver ev l h = (case run_listener l ev h of Inl e \<Rightarrow> h | Inr h' \<Rightarrow> h')"

definition bus_async_fire :: "hass \<Rightarrow> string \<Rightarrow> dict \<Rightarrow> hass" where
  "bus_async_fire h topic event_data =
     (let h1 = h\<lparr>calls := calls h @ [Fire topic event_data]\<rparr>;
          ev = \<lparr>event_type = topic, data = event_data\<rparr>
      in fold (deliver ev) (map snd (filter (\<lambda>(t, l). t = topic) (listeners h1))) h1)"

subsection \<open>Consumers\<close>

text \<open>The \<^verbatim>\<open>service\<close> argument of \<^verbatim>\<open>async_listen\<close>: one string, or a collection of strings.\<close>

datatype service_arg = Str string | Collection "string list"

definition async_listen :: "env \<Rightarrow> hass \<Rightarrow> service_arg \<Rightarrow> callback \<Rightarrow> hass" where
  "async_listen env h service callback =
     (let service' = (case service of Str s \<Rightarrow> [s] | Collection xs \<Rightarrow> xs)
      in bus_async_listen h (EVENT_PLATFORM_DISCOVERED env)
           (Discovery_event_listener service' callback))"

definition async_listen_platform :: "env \<Rightarrow> hass \<Rightarrow> string \<Rightarrow> callback \<Rightarrow> hass" where
  "async_listen_platform env h component callback =
     (let service = EVENT_LOAD_PLATFORM component
      in bus_async_listen h (EVENT_PLATFORM_DISCOVERED env)
           (Discovery_platform_listener service callback))"

subsection \<open>Producers\<close>

text \<open>
  An \<^verbatim>\<open>await\<close> is a sequential call, a \<^verbatim>\<open>raise\<close> ends the call with \<open>Inl\<close> and the host
  as it is at that point, and \<^verbatim>\<open>assert\<close> statements are executed (the interpreter does not
  run with \<^verbatim>\<open>-O\<close>).
\<close>

text \<open>How an f-string renders the \<^verbatim>\<open>Optional[str]\<close> argument \<^verbatim>\<open>component\<close>.\<close>

definition format_component :: "string option \<Rightarrow> string" where
  "format_component component = (case component of None \<Rightarrow> ''None'' | Some c \<Rightarrow> c)"

definition async_discover ::
    "env \<Rightarrow> hass \<Rightarrow> string \<Rightarrow> val \<Rightarrow> string option \<Rightarrow> val \<Rightarrow> (error + unit) \<times> hass" where
  "async_discover env h service discovered component hass_config =
     (if (case component of None \<Rightarrow> False | Some c \<Rightarrow> c \<in> DEPENDENCY_BLACKLIST env)
      then (Inl (HomeAssistantError
                   (''Cannot discover the '' @ format_component component @ '' component.'')), h)
      else
        let h1 = (case component of
                    None \<Rightarrow> h
                  | Some c \<Rightarrow>
                      if c \<notin> components h
                      then snd (async_setup_component env h c hass_config)
                      else h);
            data0 = [ATTR_SERVICE \<mapsto> VStr service];
            data1 = (if discovered \<noteq> VNone then data0(ATTR_DISCOVERED \<mapsto> discovered)
                     else data0)
        in (Inr (), bus_async_fire h1 (EVENT_PLATFORM_DISCOVERED env) data1))"

definition async_load_platform ::
    "env \<Rightarrow> hass \<Rightarrow> string \<Rightarrow> string \<Rightarrow> val \<Rightarrow> val \<Rightarrow> (error + unit) \<times> hass" where
  "async_load_platform env h component platform discovered hass_config =
     (if \<not> truthy hass_config
      then (Inl (AssertionError ''You need to pass in the real hass config''), h)
      else if component \<in> DEPENDENCY_BLACKLIST env
      then (Inl (HomeAssistantError (''Cannot discover the '' @ component @ '' component.'')), h)
      else
        let (setup_success, h1) =
              (if component \<notin> components h
               then async_setup_component env h component hass_config
               else (True, h))
        in if \<not> setup_success then (Inr (), h1)
           else
             let data0 = [ATTR_SERVICE \<mapsto> VStr (EVENT_LOAD_PLATFORM component),
                          ATTR_PLATFORM \<mapsto> VStr platform];
                 data1 = (if discovered \<noteq> VNone then data0(ATTR_DISCOVERED \<mapsto> discovered)
                          else data0)
             in (Inr (), bus_async_fire h1 (EVENT_PLATFORM_DISCOVERED env) data1))"

subsection \<open>Observations and example hosts\<close>

text \<open>
  The invocations a listener schedules when it is handed an event, read off the model of the
  closure itself by running it on a host without pending jobs.
\<close>

definition idle :: hass where
  "idle = \<lparr>components = {}, listeners = [], jobs = [], calls = []\<rparr>"

definition reaction :: "event \<Rightarrow> listener \<Rightarrow> job list" where
  "reaction ev l = jobs (deliver ev l idle)"

text \<open>The handlers registered on a topic, in registration order.\<close>

definition subscribers :: "hass \<Rightarrow> string \<Rightarrow> listener list" where
  "subscribers h topic = map snd (filter (\<lambda>(t, l). t = topic) (listeners h))"

text \<open>
  Two concrete environments: the deny-list holds \<^verbatim>\<open>config\<close>, the topic is
  \<^verbatim>\<open>platform_discovered\<close>, and activation always succeeds, or always fails.
\<close>

definition env_ok :: env where
  "env_ok = \<lparr>DEPENDENCY_BLACKLIST = {''config''},
             EVENT_PLATFORM_DISCOVERED = ''platform_discovered'',
             activation = (\<lambda>domain config. True)\<rparr>"

definition env_fail :: env where
  "env_fail = \<lparr>DEPENDENCY_BLACKLIST = {''config''},
               EVENT_PLATFORM_DISCOVERED = ''platform_discovered'',
               activation = (\<lambda>domain config. False)\<rparr>"

definition real_config :: val where
  "real_config = VDict [(''hub'', VDict [])]"

text \<open>
  The specification's account of a service announcement, in its own words: a listener
  registered for a set of names that holds the announced service \<open>S\<close> gets one invocation of
  its callback with the pair \<open>(S, P)\<close>; every other listener gets nothing.
\<close>

fun owed :: "string \<Rightarrow> val \<Rightarrow> listener \<Rightarrow> job list" where
  "owed S P (Discovery_event_listener service cb) =
     (if S \<in> set service then [Job cb (VStr S) P] else [])"
| "owed S P (Discovery_platform_listener service cb) = []"

text \<open>The set of service names an argument of \<^verbatim>\<open>async_listen\<close> stands for.\<close>

definition names :: "service_arg \<Rightarrow> string set" where
  "names arg = (case arg of Str s \<Rightarrow> {s} | Collection xs \<Rightarrow> set xs)"

section \<open>Properties\<close>

subsection \<open>Delivery on the bus\<close>

lemma deliver_reaction: "deliver ev l h = h\<lparr>jobs := jobs h @ reaction ev l\<rparr>"
  by (cases l)
     (simp_all add: deliver_def reaction_def idle_def discovery_event_listener_def
        discovery_platform_listener_def async_add_job_def async_run_job_def Let_def
        dict_contains_def dict_getitem_def split: option.splits)

lemma fold_deliver:
  "fold (deliver ev) ls h = h\<lparr>jobs := jobs h @ concat (map (reaction ev) ls)\<rparr>"
  by (induction ls arbitrary: h) (simp_all add: deliver_reaction)

lemma bus_async_fire_eq:
  "bus_async_fire h topic d =
     h\<lparr>calls := calls h @ [Fire topic d],
       jobs := jobs h @
         concat (map (reaction \<lparr>event_type = topic, data = d\<rparr>) (subscribers h topic))\<rparr>"
  by (simp add: bus_async_fire_def Let_def fold_deliver subscribers_def)

lemmas consts_defs =
  ATTR_SERVICE_def ATTR_DISCOVERED_def ATTR_PLATFORM_def EVENT_LOAD_PLATFORM_def

lemma calls_bus_async_fire: "calls (bus_async_fire h topic d) = calls h @ [Fire topic d]"
  by (simp add: bus_async_fire_eq)

lemma components_bus_async_fire: "components (bus_async_fire h topic d) = components h"
  by (simp add: bus_async_fire_eq)

lemma jobs_bus_async_fire:
  "jobs (bus_async_fire h topic d) =
     jobs h @ concat (map (reaction \<lparr>event_type = topic, data = d\<rparr>) (subscribers h topic))"
  by (simp add: bus_async_fire_eq)

lemma subscribers_bus_async_listen:
  "subscribers (bus_async_listen h topic l) topic = subscribers h topic @ [l]"
  by (simp add: subscribers_def bus_async_listen_def)

lemma jobs_bus_async_listen: "jobs (bus_async_listen h topic l) = jobs h"
  by (simp add: bus_async_listen_def)

lemma reaction_event_listener:
  "reaction ev (Discovery_event_listener service cb) =
     (case data ev ATTR_SERVICE of
        None \<Rightarrow> []
      | Some s \<Rightarrow> if s \<in> VStr ` set service
                  then [Job cb s (dict_get (data ev) ATTR_DISCOVERED)] else [])"
  by (simp add: reaction_def deliver_def discovery_event_listener_def dict_contains_def
        dict_getitem_def async_add_job_def idle_def split: option.splits)

lemma reaction_platform_listener:
  "reaction ev (Discovery_platform_listener service cb) =
     (if dict_get (data ev) ATTR_SERVICE = VStr service \<and>
         truthy (dict_get (data ev) ATTR_PLATFORM)
      then [Job cb (dict_get (data ev) ATTR_PLATFORM) (dict_get (data ev) ATTR_DISCOVERED)]
      else [])"
  by (simp add: reaction_def deliver_def discovery_platform_listener_def async_run_job_def
        idle_def Let_def)

lemma reaction_discover_event:
  "reaction \<lparr>event_type = topic,
             data = (if P \<noteq> VNone then [ATTR_SERVICE \<mapsto> VStr S](ATTR_DISCOVERED \<mapsto> P)
                     else [ATTR_SERVICE \<mapsto> VStr S])\<rparr> l = owed S P l"
  by (cases l)
     (auto simp add: reaction_event_listener reaction_platform_listener dict_get_def consts_defs)

lemma async_discover_None:
  "async_discover env h S P None cfg =
     (Inr (),
      h\<lparr>calls := calls h @ [Fire (EVENT_PLATFORM_DISCOVERED env)
           (if P \<noteq> VNone then [ATTR_SERVICE \<mapsto> VStr S](ATTR_DISCOVERED \<mapsto> P)
            else [ATTR_SERVICE \<mapsto> VStr S])],
        jobs := jobs h @
           concat (map (owed S P) (subscribers h (EVENT_PLATFORM_DISCOVERED env)))\<rparr>)"
  unfolding async_discover_def Let_def bus_async_fire_eq reaction_discover_event
  by simp

subsection \<open>The configuration assertion of \<^verbatim>\<open>async_load_platform\<close>\<close>

text \<open>
  C8: a call of \<^verbatim>\<open>async_load_platform\<close> whose configuration is empty or missing (falsy)
  ends with the assertion error and leaves the host as it was: no activation call, no
  broadcast, no callback, whatever the component is. With a non-empty configuration the
  call never ends with an assertion error.
\<close>

theorem async_load_platform_asserts_config:
  "(\<not> truthy hass_config \<longrightarrow>
      async_load_platform env h component platform discovered hass_config =
        (Inl (AssertionError ''You need to pass in the real hass config''), h)) \<and>
   (truthy hass_config \<longrightarrow>
      (\<forall>msg. fst (async_load_platform env h component platform discovered hass_config)
         \<noteq> Inl (AssertionError msg)))"
  by (simp add: async_load_platform_def Let_def split: prod.splits)

theorem async_load_platform_asserts_config_witness:
  "\<not> truthy (VDict []) \<and>
   async_load_platform env_ok idle ''hub'' ''driverA'' VNone (VDict []) =
     (Inl (AssertionError ''You need to pass in the real hass config''), idle) \<and>
   truthy real_config \<and>
   fst (async_load_platform env_ok idle ''hub'' ''driverA'' VNone real_config)
     \<noteq> Inl (AssertionError ''You need to pass in the real hass config'')"
  using async_load_platform_asserts_config
          [of "VDict []" env_ok idle "''hub''" "''driverA''" VNone]
    async_load_platform_asserts_config
          [of real_config env_ok idle "''hub''" "''driverA''" VNone]
  by (simp add: real_config_def)

text \<open>
  C9: with an empty configuration and a deny-listed component together,
  \<^verbatim>\<open>async_load_platform\<close> ends with the assertion error and not with the
  \<^verbatim>\<open>HomeAssistantError\<close> of the deny-list check.
\<close>

theorem assertion_precedes_deny_list:
  "\<not> truthy hass_config \<Longrightarrow> component \<in> DEPENDENCY_BLACKLIST env \<Longrightarrow>
     async_load_platform env h component platform discovered hass_config =
       (Inl (AssertionError ''You need to pass in the real hass config''), h) \<and>
     (\<forall>msg. fst (async_load_platform env h component platform discovered hass_config)
        \<noteq> Inl (HomeAssistantError msg))"
  by (simp add: async_load_platform_def)

theorem assertion_precedes_deny_list_witness:
  "\<not> truthy (VDict []) \<and> ''config'' \<in> DEPENDENCY_BLACKLIST env_ok \<and>
   async_load_platform env_ok idle ''config'' ''driverA'' VNone (VDict []) =
     (Inl (AssertionError ''You need to pass in the real hass config''), idle)"
  using assertion_precedes_deny_list [of "VDict []" "''config''" env_ok idle "''driverA''" VNone]
  by (simp add: env_ok_def)

subsection \<open>The deny-list\<close>

text \<open>
  C3, as the specification states it, fails for \<^verbatim>\<open>async_load_platform\<close>: the assertion on
  the configuration is evaluated before the deny-list test. For the deny-listed component
  \<^verbatim>\<open>config\<close> and an empty configuration the call ends with the assertion error, not with
  the \<^verbatim>\<open>HomeAssistantError\<close> of the deny-list; the same holds for a missing configuration.
\<close>

theorem deny_listed_load_platform_asserts_first:
  "''config'' \<in> DEPENDENCY_BLACKLIST env_ok \<and>
   fst (async_load_platform env_ok idle ''config'' ''driverA'' VNone (VDict [])) =
     Inl (AssertionError ''You need to pass in the real hass config'') \<and>
   fst (async_load_platform env_ok idle ''config'' ''driverA'' VNone (VDict [])) \<noteq>
     Inl (HomeAssistantError ''Cannot discover the config component.'') \<and>
   fst (async_load_platform env_ok idle ''config'' ''driverA'' VNone VNone) =
     Inl (AssertionError ''You need to pass in the real hass config'')"
  by (simp add: async_load_platform_def env_ok_def)

text \<open>
  C3, amended: for a component on the deny-list, \<^verbatim>\<open>async_discover\<close> ends with the
  \<^verbatim>\<open>HomeAssistantError\<close> (the specification's \<^verbatim>\<open>ForbiddenComponentError\<close>), and so does
  \<^verbatim>\<open>async_load_platform\<close> whenever it is given a non-empty configuration. Whatever the
  configuration, both leave the host exactly as it was: the activation subsystem is not
  called, nothing is broadcast, and no callback is scheduled.
\<close>

theorem deny_list_raises_untouched:
  "c \<in> DEPENDENCY_BLACKLIST env \<Longrightarrow>
     async_discover env h service discovered (Some c) hass_config =
       (Inl (HomeAssistantError (''Cannot discover the '' @ c @ '' component.'')), h) \<and>
     snd (async_load_platform env h c platform discovered hass_config) = h \<and>
     (truthy hass_config \<longrightarrow>
        async_load_platform env h c platform discovered hass_config =
          (Inl (HomeAssistantError (''Cannot discover the '' @ c @ '' component.'')), h))"
  by (simp add: async_discover_def async_load_platform_def format_component_def)

theorem deny_list_raises_untouched_witness:
  "''config'' \<in> DEPENDENCY_BLACKLIST env_ok \<and>
   async_discover env_ok (async_listen env_ok idle (Str ''svc'') ''cb'') ''svc'' VNone
       (Some ''config'') real_config =
     (Inl (HomeAssistantError ''Cannot discover the config component.''),
      async_listen env_ok idle (Str ''svc'') ''cb'') \<and>
   truthy real_config \<and>
   async_load_platform env_ok (async_listen_platform env_ok idle ''config'' ''cb'')
       ''config'' ''driverA'' VNone real_config =
     (Inl (HomeAssistantError ''Cannot discover the config component.''),
      async_listen_platform env_ok idle ''config'' ''cb'')"
  using deny_list_raises_untouched
          [of "''config''" env_ok "async_listen env_ok idle (Str ''svc'') ''cb''" "''svc''" VNone
             real_config "''driverA''"]
    deny_list_raises_untouched
          [of "''config''" env_ok "async_listen_platform env_ok idle ''config'' ''cb''" "''svc''"
             VNone real_config "''driverA''"]
  by (simp add: env_ok_def real_config_def)

subsection \<open>Activation before the broadcast\<close>

text \<open>
  C1, as the specification states it, fails: \<^verbatim>\<open>async_discover\<close> awaits the activation and
  discards its result. With an activation that fails, the call still makes its broadcast,
  and a listener registered for the service has its callback scheduled.
\<close>

theorem discover_fires_after_failed_activation:
  "''hub'' \<notin> components (async_listen env_fail idle (Str ''svc'') ''cb'') \<and>
   fst (async_setup_component env_fail (async_listen env_fail idle (Str ''svc'') ''cb'')
          ''hub'' real_config) = False \<and>
   calls (snd (async_discover env_fail (async_listen env_fail idle (Str ''svc'') ''cb'')
                 ''svc'' VNone (Some ''hub'') real_config)) =
     [Setup_component ''hub'' real_config,
      Fire ''platform_discovered'' [ATTR_SERVICE \<mapsto> VStr ''svc'']] \<and>
   jobs (snd (async_discover env_fail (async_listen env_fail idle (Str ''svc'') ''cb'')
                ''svc'' VNone (Some ''hub'') real_config)) =
     [Job ''cb'' (VStr ''svc'') VNone]"
  by (simp add: async_discover_def async_setup_component_def async_listen_def
        bus_async_listen_def bus_async_fire_def deliver_def discovery_event_listener_def
        dict_contains_def dict_getitem_def dict_get_def async_add_job_def
        env_fail_def idle_def consts_defs Let_def)

text \<open>
  C1, amended: for a component that is not on the deny-list and not yet active,
  \<^verbatim>\<open>async_discover\<close> returns normally and adds to the record of calls exactly one activation
  call followed by exactly one broadcast of an event for the service, whatever the
  activation returns.
\<close>

theorem discover_activates_once_then_fires:
  "c \<notin> DEPENDENCY_BLACKLIST env \<Longrightarrow> c \<notin> components h \<Longrightarrow>
     fst (async_discover env h service discovered (Some c) hass_config) = Inr () \<and>
     (\<exists>d. calls (snd (async_discover env h service discovered (Some c) hass_config)) =
            calls h @ [Setup_component c hass_config, Fire (EVENT_PLATFORM_DISCOVERED env) d] \<and>
          d ATTR_SERVICE = Some (VStr service))"
  by (simp add: async_discover_def async_setup_component_def Let_def calls_bus_async_fire
        consts_defs)

theorem discover_activates_once_then_fires_witness:
  "''hub'' \<notin> DEPENDENCY_BLACKLIST env_fail \<and> ''hub'' \<notin> components idle \<and>
   fst (async_discover env_fail idle ''svc'' VNone (Some ''hub'') real_config) = Inr () \<and>
   (\<exists>d. calls (snd (async_discover env_fail idle ''svc'' VNone (Some ''hub'') real_config)) =
          calls idle @ [Setup_component ''hub'' real_config,
                        Fire (EVENT_PLATFORM_DISCOVERED env_fail) d] \<and>
        d ATTR_SERVICE = Some (VStr ''svc''))"
  using discover_activates_once_then_fires
          [of "''hub''" env_fail idle "''svc''" VNone real_config]
  by (simp add: env_fail_def idle_def)

text \<open>
  C2: every call of \<^verbatim>\<open>async_load_platform\<close> falls under one of four cases. A call that
  raises leaves the host untouched. For a component that is already active the call makes
  one broadcast and no activation call. For a component that is not active and whose
  activation succeeds, the call makes the activation call first and the broadcast second,
  and the component is active afterwards. For a component whose activation fails, the
  activation call is the only thing that happens: nothing is broadcast and no callback is
  scheduled.
\<close>

theorem load_platform_fires_only_when_active:
  "(\<not> truthy hass_config \<or> c \<in> DEPENDENCY_BLACKLIST env \<longrightarrow>
      snd (async_load_platform env h c platform discovered hass_config) = h) \<and>
   (truthy hass_config \<and> c \<notin> DEPENDENCY_BLACKLIST env \<and> c \<in> components h \<longrightarrow>
      c \<in> components (snd (async_load_platform env h c platform discovered hass_config)) \<and>
      (\<exists>d. calls (snd (async_load_platform env h c platform discovered hass_config)) =
             calls h @ [Fire (EVENT_PLATFORM_DISCOVERED env) d])) \<and>
   (truthy hass_config \<and> c \<notin> DEPENDENCY_BLACKLIST env \<and> c \<notin> components h \<and>
    activation env c hass_config \<longrightarrow>
      c \<in> components (snd (async_load_platform env h c platform discovered hass_config)) \<and>
      (\<exists>d. calls (snd (async_load_platform env h c platform discovered hass_config)) =
             calls h @
               [Setup_component c hass_config, Fire (EVENT_PLATFORM_DISCOVERED env) d])) \<and>
   (truthy hass_config \<and> c \<notin> DEPENDENCY_BLACKLIST env \<and> c \<notin> components h \<and>
    \<not> activation env c hass_config \<longrightarrow>
      async_load_platform env h c platform discovered hass_config =
        (Inr (), h\<lparr>calls := calls h @ [Setup_component c hass_config]\<rparr>))"
  by (simp add: async_load_platform_def async_setup_component_def Let_def calls_bus_async_fire
        components_bus_async_fire)

theorem load_platform_fires_only_when_active_witness:
  "snd (async_load_platform env_ok idle ''config'' ''driverA'' VNone real_config) = idle \<and>
   (\<exists>d. calls (snd (async_load_platform env_ok (idle\<lparr>components := {''hub''}\<rparr>)
                      ''hub'' ''driverA'' VNone real_config)) =
          [Fire ''platform_discovered'' d]) \<and>
   ''hub'' \<in> components
      (snd (async_load_platform env_ok idle ''hub'' ''driverA'' VNone real_config)) \<and>
   (\<exists>d. calls (snd (async_load_platform env_ok idle ''hub'' ''driverA'' VNone real_config)) =
          [Setup_component ''hub'' real_config, Fire ''platform_discovered'' d]) \<and>
   async_load_platform env_fail idle ''hub'' ''driverA'' VNone real_config =
     (Inr (), idle\<lparr>calls := [Setup_component ''hub'' real_config]\<rparr>)"
  using load_platform_fires_only_when_active
          [of real_config "''config''" env_ok idle "''driverA''" VNone]
    load_platform_fires_only_when_active
          [of real_config "''hub''" env_ok "idle\<lparr>components := {''hub''}\<rparr>" "''driverA''" VNone]
    load_platform_fires_only_when_active
          [of real_config "''hub''" env_ok idle "''driverA''" VNone]
    load_platform_fires_only_when_active
          [of real_config "''hub''" env_fail idle "''driverA''" VNone]
  by (simp add: env_ok_def env_fail_def idle_def real_config_def)

subsection \<open>The payload field\<close>

text \<open>
  C7: whenever \<^verbatim>\<open>async_discover\<close> or \<^verbatim>\<open>async_load_platform\<close> broadcasts, the event is the
  last call recorded, and its mapping has no \<^verbatim>\<open>discovered\<close> key when the argument
  \<^verbatim>\<open>discovered\<close> is \<^verbatim>\<open>None\<close> and carries the argument under that key otherwise; an empty
  mapping is carried as an empty mapping, so the two cases differ in the event.
\<close>

theorem discovered_absent_or_carried:
  "((case component of None \<Rightarrow> True | Some c \<Rightarrow> c \<notin> DEPENDENCY_BLACKLIST env) \<longrightarrow>
      (\<exists>pre d. calls (snd (async_discover env h service discovered component hass_config)) =
                 calls h @ pre @ [Fire (EVENT_PLATFORM_DISCOVERED env) d] \<and>
               list_all is_Setup pre \<and>
               d ATTR_DISCOVERED = (if discovered = VNone then None else Some discovered))) \<and>
   (truthy hass_config \<and> c' \<notin> DEPENDENCY_BLACKLIST env \<and>
    (c' \<in> components h \<or> activation env c' hass_config) \<longrightarrow>
      (\<exists>pre d. calls (snd (async_load_platform env h c' platform discovered hass_config)) =
                 calls h @ pre @ [Fire (EVENT_PLATFORM_DISCOVERED env) d] \<and>
               list_all is_Setup pre \<and>
               d ATTR_DISCOVERED = (if discovered = VNone then None else Some discovered)))"
  by (auto simp add: async_discover_def async_load_platform_def async_setup_component_def
        Let_def calls_bus_async_fire consts_defs split: option.splits)

theorem discovered_absent_or_carried_witness:
  "(\<exists>pre d. calls (snd (async_discover env_ok idle ''svc'' VNone None real_config)) =
             calls idle @ pre @ [Fire (EVENT_PLATFORM_DISCOVERED env_ok) d] \<and>
           list_all is_Setup pre \<and> d ATTR_DISCOVERED = None) \<and>
   (\<exists>pre d. calls (snd (async_discover env_ok idle ''svc'' (VDict []) None real_config)) =
             calls idle @ pre @ [Fire (EVENT_PLATFORM_DISCOVERED env_ok) d] \<and>
           list_all is_Setup pre \<and> d ATTR_DISCOVERED = Some (VDict [])) \<and>
   (\<exists>pre d. calls (snd (async_load_platform env_ok idle ''hub'' ''driverA'' VNone
                          real_config)) =
             calls idle @ pre @ [Fire (EVENT_PLATFORM_DISCOVERED env_ok) d] \<and>
           list_all is_Setup pre \<and> d ATTR_DISCOVERED = None) \<and>
   (\<exists>pre d. calls (snd (async_load_platform env_ok idle ''hub'' ''driverA'' (VDict [])
                          real_config)) =
             calls idle @ pre @ [Fire (EVENT_PLATFORM_DISCOVERED env_ok) d] \<and>
           list_all is_Setup pre \<and> d ATTR_DISCOVERED = Some (VDict []))"
proof -
  have pre: "truthy real_config" "''hub'' \<notin> DEPENDENCY_BLACKLIST env_ok"
    "activation env_ok ''hub'' real_config"
    by (simp_all add: real_config_def env_ok_def)
  from pre
    discovered_absent_or_carried
      [where component = None and env = env_ok and h = idle and service = "''svc''"
         and discovered = VNone and hass_config = real_config and c' = "''hub''"
         and platform = "''driverA''"]
    discovered_absent_or_carried
      [where component = None and env = env_ok and h = idle and service = "''svc''"
         and discovered = "VDict []" and hass_config = real_config and c' = "''hub''"
         and platform = "''driverA''"]
  show ?thesis by simp
qed

subsection \<open>Filtering by the listeners\<close>

text \<open>
  C10: an event whose mapping has no \<^verbatim>\<open>service\<close> key makes the closure installed by
  \<^verbatim>\<open>async_listen\<close> return normally with the host unchanged: the subscript lookup, which
  would raise \<^verbatim>\<open>KeyError\<close>, is not reached, and no callback is scheduled. On the bus, a
  listener registered by \<^verbatim>\<open>async_listen\<close> adds no invocation for such an event.
\<close>

theorem event_listener_ignores_missing_service:
  "d ATTR_SERVICE = None \<Longrightarrow>
     discovery_event_listener service cb \<lparr>event_type = topic, data = d\<rparr> h = Inr h \<and>
     jobs (bus_async_fire (async_listen env h arg cb) (EVENT_PLATFORM_DISCOVERED env) d) =
       jobs (bus_async_fire h (EVENT_PLATFORM_DISCOVERED env) d)"
  by (simp add: discovery_event_listener_def dict_contains_def jobs_bus_async_fire
        async_listen_def subscribers_bus_async_listen jobs_bus_async_listen
        reaction_event_listener)

theorem event_listener_ignores_missing_service_witness:
  "[ATTR_PLATFORM \<mapsto> VStr ''driverA''] ATTR_SERVICE = None \<and>
   discovery_event_listener [''svc''] ''cb''
     \<lparr>event_type = ''platform_discovered'', data = [ATTR_PLATFORM \<mapsto> VStr ''driverA'']\<rparr> idle =
     Inr idle \<and>
   jobs (bus_async_fire (async_listen env_ok idle (Str ''svc'') ''cb'')
           (EVENT_PLATFORM_DISCOVERED env_ok) [ATTR_PLATFORM \<mapsto> VStr ''driverA'']) = []"
  using event_listener_ignores_missing_service
          [of "[ATTR_PLATFORM \<mapsto> VStr ''driverA'']" "[''svc'']" "''cb''"
              "''platform_discovered''" idle env_ok "Str ''svc''"]
  by (simp add: consts_defs jobs_bus_async_fire subscribers_def idle_def)

text \<open>
  C6: the closure installed by \<^verbatim>\<open>async_listen_platform\<close> for a component returns with the
  host unchanged for every event whose \<^verbatim>\<open>service\<close> field is not the string
  \<^verbatim>\<open>load_platform.\<close> followed by the component, and for every event whose \<^verbatim>\<open>platform\<close>
  field is absent or empty (falsy). On the bus, a listener registered by
  \<^verbatim>\<open>async_listen_platform\<close> adds no invocation for such an event. For the component
  \<^verbatim>\<open>hub\<close> this covers the services \<^verbatim>\<open>load_platform.other\<close> and \<^verbatim>\<open>hub\<close>.
\<close>

theorem platform_listener_drops_foreign_and_malformed:
  "dict_get d ATTR_SERVICE \<noteq> VStr (''load_platform.'' @ c) \<or>
   \<not> truthy (dict_get d ATTR_PLATFORM) \<Longrightarrow>
     discovery_platform_listener (EVENT_LOAD_PLATFORM c) cb \<lparr>event_type = topic, data = d\<rparr> h
       = Inr h \<and>
     jobs (bus_async_fire (async_listen_platform env h c cb) (EVENT_PLATFORM_DISCOVERED env) d) =
       jobs (bus_async_fire h (EVENT_PLATFORM_DISCOVERED env) d)"
  by (auto simp add: discovery_platform_listener_def jobs_bus_async_fire Let_def
        async_listen_platform_def subscribers_bus_async_listen jobs_bus_async_listen
        reaction_platform_listener EVENT_LOAD_PLATFORM_def)

theorem platform_listener_drops_foreign_and_malformed_witness:
  "jobs (bus_async_fire (async_listen_platform env_ok idle ''hub'' ''cb'')
           (EVENT_PLATFORM_DISCOVERED env_ok)
           [ATTR_SERVICE \<mapsto> VStr ''load_platform.other'', ATTR_PLATFORM \<mapsto> VStr ''driverA''])
     = [] \<and>
   jobs (bus_async_fire (async_listen_platform env_ok idle ''hub'' ''cb'')
           (EVENT_PLATFORM_DISCOVERED env_ok)
           [ATTR_SERVICE \<mapsto> VStr ''hub'', ATTR_PLATFORM \<mapsto> VStr ''driverA'']) = [] \<and>
   jobs (bus_async_fire (async_listen_platform env_ok idle ''hub'' ''cb'')
           (EVENT_PLATFORM_DISCOVERED env_ok)
           [ATTR_SERVICE \<mapsto> VStr ''load_platform.hub'']) = [] \<and>
   jobs (bus_async_fire (async_listen_platform env_ok idle ''hub'' ''cb'')
           (EVENT_PLATFORM_DISCOVERED env_ok)
           [ATTR_SERVICE \<mapsto> VStr ''load_platform.hub'', ATTR_PLATFORM \<mapsto> VStr '''']) = []"
proof -
  have idle_quiet: "jobs (bus_async_fire idle topic d) = []" for topic d
    by (simp add: jobs_bus_async_fire subscribers_def idle_def)
  have other: "dict_get [ATTR_SERVICE \<mapsto> VStr ''load_platform.other'',
                         ATTR_PLATFORM \<mapsto> VStr ''driverA''] ATTR_SERVICE
                 \<noteq> VStr (''load_platform.'' @ ''hub'')"
    and raw: "dict_get [ATTR_SERVICE \<mapsto> VStr ''hub'', ATTR_PLATFORM \<mapsto> VStr ''driverA'']
                ATTR_SERVICE \<noteq> VStr (''load_platform.'' @ ''hub'')"
    and absent: "\<not> truthy (dict_get [ATTR_SERVICE \<mapsto> VStr ''load_platform.hub''] ATTR_PLATFORM)"
    and empty: "\<not> truthy (dict_get [ATTR_SERVICE \<mapsto> VStr ''load_platform.hub'',
                                     ATTR_PLATFORM \<mapsto> VStr ''''] ATTR_PLATFORM)"
    by (simp_all add: dict_get_def consts_defs)
  show ?thesis
    using platform_listener_drops_foreign_and_malformed [OF disjI1, OF other]
      platform_listener_drops_foreign_and_malformed [OF disjI1, OF raw]
      platform_listener_drops_foreign_and_malformed [OF disjI2, OF absent]
      platform_listener_drops_foreign_and_malformed [OF disjI2, OF empty]
    by (simp add: idle_quiet)
qed

subsection \<open>Round trips from producer to consumer\<close>

text \<open>
  C5: for every service \<open>S\<close> and payload \<open>P\<close>, \<^verbatim>\<open>async_discover\<close> called with no component
  returns normally, and the callbacks it causes to be scheduled are, in registration order,
  one invocation with the pair \<open>(S, P)\<close> for each listener on the topic that was registered
  for a set of names holding \<open>S\<close>, and none for any other listener. In particular a listener
  registered by \<^verbatim>\<open>async_listen\<close> before the call adds exactly that one invocation when \<open>S\<close>
  is among its names and nothing otherwise.
\<close>

theorem discover_reaches_listeners_of_service:
  "fst (async_discover env h S P None cfg) = Inr () \<and>
   jobs (snd (async_discover env h S P None cfg)) =
     jobs h @ concat (map (owed S P) (subscribers h (EVENT_PLATFORM_DISCOVERED env))) \<and>
   jobs (snd (async_discover env (async_listen env h arg cb) S P None cfg)) =
     jobs (snd (async_discover env h S P None cfg)) @
       (if S \<in> names arg then [Job cb (VStr S) P] else [])"
  by (cases arg)
     (simp_all add: async_discover_None async_listen_def subscribers_bus_async_listen
        jobs_bus_async_listen names_def)

theorem discover_reaches_listeners_of_service_witness:
  "jobs (snd (async_discover env_ok
                (async_listen env_ok
                   (async_listen_platform env_ok
                      (async_listen env_ok
                         (async_listen env_ok idle (Str ''svcA'') ''cb1'')
                         (Collection [''svcB'', ''svcC'']) ''cb2'')
                      ''svcA'' ''cb3'')
                   (Collection [''svcB'', ''svcA'']) ''cb4'')
                ''svcA'' (VDict [(''id'', VInt 1)]) None real_config)) =
     [Job ''cb1'' (VStr ''svcA'') (VDict [(''id'', VInt 1)]),
      Job ''cb4'' (VStr ''svcA'') (VDict [(''id'', VInt 1)])]"
  using discover_reaches_listeners_of_service
          [of env_ok
              "async_listen_platform env_ok
                 (async_listen env_ok
                    (async_listen env_ok idle (Str ''svcA'') ''cb1'')
                    (Collection [''svcB'', ''svcC'']) ''cb2'')
                 ''svcA'' ''cb3''"
              "''svcA''" "VDict [(''id'', VInt 1)]" real_config
              "Collection [''svcB'', ''svcA'']" "''cb4''"]
  by (simp add: names_def subscribers_def async_listen_def async_listen_platform_def
        bus_async_listen_def idle_def)

text \<open>
  C4: let a listener be registered by \<^verbatim>\<open>async_listen_platform\<close> for a component, and let
  \<^verbatim>\<open>async_load_platform\<close> then be called for that component with a non-empty platform name,
  a real configuration, and the component active or its activation succeeding. The call
  returns normally and, compared with the same call on the host without that listener,
  schedules exactly one more invocation: the listener's callback with the pair of the
  platform name and the payload. For \<^verbatim>\<open>hub\<close>, \<^verbatim>\<open>driverA\<close> and the payload
  \<^verbatim>\<open>{"id": 1}\<close> on an otherwise empty host, the callback is invoked once with
  \<^verbatim>\<open>("driverA", {"id": 1})\<close>.
\<close>

theorem load_platform_reaches_platform_listener:
  "truthy cfg \<Longrightarrow> c \<notin> DEPENDENCY_BLACKLIST env \<Longrightarrow>
   c \<in> components h \<or> activation env c cfg \<Longrightarrow> p \<noteq> [] \<Longrightarrow>
     fst (async_load_platform env (async_listen_platform env h c cb) c p d cfg) = Inr () \<and>
     jobs (snd (async_load_platform env (async_listen_platform env h c cb) c p d cfg)) =
       jobs (snd (async_load_platform env h c p d cfg)) @ [Job cb (VStr p) d]"
  by (auto simp add: async_load_platform_def async_setup_component_def Let_def
        jobs_bus_async_fire async_listen_platform_def subscribers_bus_async_listen
        jobs_bus_async_listen reaction_platform_listener dict_get_def consts_defs
        bus_async_listen_def subscribers_def)

theorem load_platform_reaches_platform_listener_witness:
  "truthy real_config \<and> ''hub'' \<notin> DEPENDENCY_BLACKLIST env_ok \<and>
   activation env_ok ''hub'' real_config \<and> ''driverA'' \<noteq> [] \<and>
   fst (async_load_platform env_ok (async_listen_platform env_ok idle ''hub'' ''cb'')
          ''hub'' ''driverA'' (VDict [(''id'', VInt 1)]) real_config) = Inr () \<and>
   jobs (snd (async_load_platform env_ok (async_listen_platform env_ok idle ''hub'' ''cb'')
          ''hub'' ''driverA'' (VDict [(''id'', VInt 1)]) real_config)) =
     [Job ''cb'' (VStr ''driverA'') (VDict [(''id'', VInt 1)])]"
proof -
  have pre: "truthy real_config" "''hub'' \<notin> DEPENDENCY_BLACKLIST env_ok"
    "''hub'' \<in> components idle \<or> activation env_ok ''hub'' real_config" "''driverA'' \<noteq> []"
    by (simp_all add: real_config_def env_ok_def)
  have plain: "jobs (snd (async_load_platform env_ok idle ''hub'' ''driverA''
                 (VDict [(''id'', VInt 1)]) real_config)) = []"
    by (simp add: async_load_platform_def async_setup_component_def Let_def
          jobs_bus_async_fire subscribers_def idle_def real_config_def env_ok_def)
  from load_platform_reaches_platform_listener
         [OF pre, where cb = "''cb''" and d = "VDict [(''id'', VInt 1)]"]
    pre plain
  show ?thesis by (simp add: env_ok_def)
qed

end
